theory Spec2Isabelle
  imports Complex_Main
begin

section \<open>The Pi Pico temperature logger: shared state\<close>

text \<open>
  The repository holds two programs, \<^verbatim>\<open>main.py\<close> and its older copy
  \<^verbatim>\<open>temperature_logger.py\<close>. Where the two differ in a function modelled here, both
  versions are given, with the suffixes \<open>_main\<close> and \<open>_logger\<close>.

  A temperature is a Python float. The sampling code only stores it, compares it with the
  integer bounds of the threshold table and takes \<open>min\<close> and \<open>max\<close>; on finite floats all of
  these are exact, so a reading is modelled as a real number. The float arithmetic of
  \<^verbatim>\<open>read_temp\<close> is not modelled: the Fahrenheit reading is the input of a sampling tick.
\<close>

datatype error =
  IndexError | ValueError | AttributeError | TypeError | KeyError | UnicodeError

text \<open>The module-level \<^verbatim>\<open>Pin\<close> objects.\<close>

datatype pin =
    Watchdog_led | Http_connection_led | User_led
  | Temp_low_crit_thresh_led | Temp_low_warn_thresh_led | Temp_ok_thresh_led
  | Temp_high_warn_thresh_led | Temp_high_crit_thresh_led

text \<open>
  The attributes of \<^verbatim>\<open>PicoServer\<close> together with the output level of every pin.
  Python integers are unbounded, hence \<open>int\<close>.
\<close>

record pico =
  pins :: "pin \<Rightarrow> bool"
  watchdog_val :: int
  temp_f_latest :: real
  temp_f_min :: real
  temp_f_max :: real
  thresh_times :: "int list"

text \<open>Every pin is driven low at import time; the class attributes give the rest.\<close>

definition init_pico :: pico where
  "init_pico =
     \<lparr> pins = (\<lambda>_. False), watchdog_val = 0, temp_f_latest = 0,
       temp_f_min = 1000, temp_f_max = 0, thresh_times = [0, 0, 0, 0, 0] \<rparr>"

text \<open>
  A statement that raises leaves the attributes written before it in place, so a run
  returns the state it reached together with the exception, if any.
\<close>

type_synonym outcome = "pico \<times> error option"

subsection \<open>Python values that the sampling loop binds\<close>

text \<open>
  \<^verbatim>\<open>main.py\<close> iterates \<^verbatim>\<open>for led,idx in enumerate(thresh_leds)\<close>, which binds
  \<^verbatim>\<open>led\<close> to the position and \<^verbatim>\<open>idx\<close> to the pin. The loop body is therefore
  modelled over dynamically typed values.
\<close>

datatype pyval = PyInt int | PyPin pin

fun py_eq :: "pyval \<Rightarrow> pyval \<Rightarrow> bool" where
  "py_eq (PyInt a) (PyInt b) = (a = b)"
| "py_eq (PyPin p) (PyPin q) = (p = q)"
| "py_eq _ _ = False"

text \<open>\<^verbatim>\<open>obj.value(b)\<close>: sets the level of a pin; an integer has no such attribute.\<close>

fun value_call :: "pyval \<Rightarrow> bool \<Rightarrow> pico \<Rightarrow> error + pico" where
  "value_call (PyPin p) b s = Inr (s\<lparr>pins := (pins s)(p := b)\<rparr>)"
| "value_call (PyInt _) b s = Inl AttributeError"

text \<open>
  A list subscript: an integer from \<open>-len\<close> up to \<open>len - 1\<close> names a position, the
  negative ones counting from the end; any other integer raises \<open>IndexError\<close>.
\<close>

definition py_index :: "nat \<Rightarrow> int \<Rightarrow> nat option" where
  "py_index len i =
     (if 0 \<le> i \<and> i < int len then Some (nat i)
      else if i < 0 \<and> - int len \<le> i then Some (nat (int len + i))
      else None)"

text \<open>
  \<^verbatim>\<open>self.thresh_times[idx] = self.thresh_times[idx] + 1\<close>; a pin is no subscript.
\<close>

fun bump_thresh_time :: "pyval \<Rightarrow> pico \<Rightarrow> error + pico" where
  "bump_thresh_time (PyPin _) s = Inl TypeError"
| "bump_thresh_time (PyInt i) s =
     (case py_index (length (thresh_times s)) i of
        None \<Rightarrow> Inl IndexError
      | Some k \<Rightarrow> Inr (s\<lparr>thresh_times := (thresh_times s)[k := thresh_times s ! k + 1]\<rparr>))"

text \<open>\<^verbatim>\<open>enumerate(xs)\<close>: positions from 0 paired with the elements.\<close>

fun enumerate_from :: "int \<Rightarrow> 'a list \<Rightarrow> (int \<times> 'a) list" where
  "enumerate_from k [] = []"
| "enumerate_from k (x # xs) = (k, x) # enumerate_from (k + 1) xs"

definition enumerate_py :: "'a list \<Rightarrow> (int \<times> 'a) list" where
  "enumerate_py xs = enumerate_from 0 xs"

text \<open>\<^verbatim>\<open>xs.index(x)\<close>: the first position holding a value equal to \<open>x\<close>.\<close>

fun index_py :: "'a list \<Rightarrow> 'a \<Rightarrow> error + int" where
  "index_py [] x = Inl ValueError"
| "index_py (y # ys) x =
     (if y = x then Inr 0
      else (case index_py ys x of Inl e \<Rightarrow> Inl e | Inr i \<Rightarrow> Inr (i + 1)))"

section \<open>The sampling duty (\<^verbatim>\<open>cache_temp\<close>)\<close>

definition thresh_leds :: "pin list" where
  "thresh_leds =
     [Temp_low_crit_thresh_led, Temp_low_warn_thresh_led, Temp_ok_thresh_led,
      Temp_high_warn_thresh_led, Temp_high_crit_thresh_led]"

definition thresholds :: "(int \<times> int) list" where
  "thresholds = [(-40, 32), (32, 37), (37, 60), (60, 85), (86, 176)]"

text \<open>
  \<^verbatim>\<open>on_item = list(filter(lambda range: (range[0]<self.temp_f_latest<range[1]), thresholds))\<close>
\<close>

definition on_item :: "real \<Rightarrow> (int \<times> int) list" where
  "on_item f = filter (\<lambda>range. real_of_int (fst range) < f \<and> f < real_of_int (snd range)) thresholds"

text \<open>\<^verbatim>\<open>on_idx = thresholds.index(on_item[0])\<close>; \<^verbatim>\<open>on_item[0]\<close> raises on the empty list.\<close>

definition on_idx :: "real \<Rightarrow> error + int" where
  "on_idx f = (case on_item f of [] \<Rightarrow> Inl IndexError | item # _ \<Rightarrow> index_py thresholds item)"

text \<open>
  The loop of \<^verbatim>\<open>main.py\<close>:
  \<^verbatim>\<open>
  for led,idx in enumerate(thresh_leds):
      led.value(idx==on_idx)
      if idx == on_idx:
          self.thresh_times[idx] = self.thresh_times[idx] + 1
  \<close>
  The callee \<^verbatim>\<open>led.value\<close> is looked up before the argument is evaluated.
\<close>

fun thresh_loop_main :: "(int \<times> pin) list \<Rightarrow> int \<Rightarrow> pico \<Rightarrow> outcome" where
  "thresh_loop_main [] on s = (s, None)"
| "thresh_loop_main ((led, idx) # rest) on s =
     (case value_call (PyInt led) (py_eq (PyPin idx) (PyInt on)) s of
        Inl e \<Rightarrow> (s, Some e)
      | Inr s1 \<Rightarrow>
          if py_eq (PyPin idx) (PyInt on) then
            (case bump_thresh_time (PyPin idx) s1 of
               Inl e \<Rightarrow> (s1, Some e)
             | Inr s2 \<Rightarrow> thresh_loop_main rest on s2)
          else thresh_loop_main rest on s1)"

text \<open>
  The loop of \<^verbatim>\<open>temperature_logger.py\<close>:
  \<^verbatim>\<open>
  for idx in range(len(thresh_leds)):
      thresh_leds[idx].value(idx==on_idx)
      if idx == on_idx:
          self.thresh_times[idx] = self.thresh_times[idx] + 1
  \<close>
  Every \<open>idx\<close> it is run on is a position of \<open>thresh_leds\<close>.
\<close>

fun thresh_loop_logger :: "nat list \<Rightarrow> int \<Rightarrow> pico \<Rightarrow> outcome" where
  "thresh_loop_logger [] on s = (s, None)"
| "thresh_loop_logger (idx # rest) on s =
     (case value_call (PyPin (thresh_leds ! idx)) (py_eq (PyInt (int idx)) (PyInt on)) s of
        Inl e \<Rightarrow> (s, Some e)
      | Inr s1 \<Rightarrow>
          if py_eq (PyInt (int idx)) (PyInt on) then
            (case bump_thresh_time (PyInt (int idx)) s1 of
               Inl e \<Rightarrow> (s1, Some e)
             | Inr s2 \<Rightarrow> thresh_loop_logger rest on s2)
          else thresh_loop_logger rest on s1)"

text \<open>
  The statements of one iteration of \<^verbatim>\<open>while True\<close> before the sleep, shared by both
  files up to the loop over the indicators:
  \<^verbatim>\<open>
  self.temp_f_latest = temp_now[1]
  self.temp_f_min = min(self.temp_f_min,self.temp_f_latest)
  self.temp_f_max = max(self.temp_f_max,self.temp_f_latest)
  \<close>
\<close>

definition update_extrema :: "real \<Rightarrow> pico \<Rightarrow> pico" where
  "update_extrema f s =
     (let s1 = s\<lparr>temp_f_latest := f\<rparr>;
          s2 = s1\<lparr>temp_f_min := min (temp_f_min s1) (temp_f_latest s1)\<rparr>
      in s2\<lparr>temp_f_max := max (temp_f_max s2) (temp_f_latest s2)\<rparr>)"

definition cache_temp_body_main :: "real \<Rightarrow> pico \<Rightarrow> outcome" where
  "cache_temp_body_main f s =
     (let s1 = update_extrema f s
      in case on_idx (temp_f_latest s1) of
           Inl e \<Rightarrow> (s1, Some e)
         | Inr i \<Rightarrow> thresh_loop_main (enumerate_py thresh_leds) i s1)"

definition cache_temp_body_logger :: "real \<Rightarrow> pico \<Rightarrow> outcome" where
  "cache_temp_body_logger f s =
     (let s1 = update_extrema f s
      in case on_idx (temp_f_latest s1) of
           Inl e \<Rightarrow> (s1, Some e)
         | Inr i \<Rightarrow> thresh_loop_logger [0..<length thresh_leds] i s1)"

text \<open>
  \<^verbatim>\<open>while True\<close>: the loop never returns. It is run on the readings of its first
  iterations; an exception ends the task, and the readings after it are never taken.
\<close>

fun run_ticks :: "(real \<Rightarrow> pico \<Rightarrow> outcome) \<Rightarrow> real list \<Rightarrow> pico \<Rightarrow> outcome" where
  "run_ticks body [] s = (s, None)"
| "run_ticks body (f # fs) s =
     (case body f s of
        (s1, Some e) \<Rightarrow> (s1, Some e)
      | (s1, None) \<Rightarrow> run_ticks body fs s1)"

definition cache_temp_main :: "real list \<Rightarrow> pico \<Rightarrow> outcome" where
  "cache_temp_main = run_ticks cache_temp_body_main"

definition cache_temp_logger :: "real list \<Rightarrow> pico \<Rightarrow> outcome" where
  "cache_temp_logger = run_ticks cache_temp_body_logger"



text \<open>The ordering of the running extrema around the latest reading.\<close>

definition ordered_extrema :: "pico \<Rightarrow> bool" where
  "ordered_extrema s \<longleftrightarrow> temp_f_min s \<le> temp_f_latest s \<and> temp_f_latest s \<le> temp_f_max s"

text \<open>The number of readings, among \<open>fs\<close>, that the classification puts in band \<open>i\<close>.\<close>

definition ticks_in_band :: "int \<Rightarrow> real list \<Rightarrow> int" where
  "ticks_in_band i fs = int (length (filter (\<lambda>f. on_idx f = Inr i) fs))"

section \<open>The dwell-time formatter (\<^verbatim>\<open>format_times\<close>)\<close>

text \<open>\<^verbatim>\<open>str(n)\<close> and the \<^verbatim>\<open>{}\<close> of a format string, for an integer: decimal digits.\<close>

definition digit_chars :: string where
  "digit_chars = ''0123456789''"

fun str_nat :: "nat \<Rightarrow> string" where
  "str_nat n = (if n < 10 then [digit_chars ! n] else str_nat (n div 10) @ [digit_chars ! (n mod 10)])"

declare str_nat.simps [simp del]

definition str_int :: "int \<Rightarrow> string" where
  "str_int i = (if i < 0 then CHR ''-'' # str_nat (nat (- i)) else str_nat (nat i))"

text \<open>\<^verbatim>\<open>divmod\<close> on integers rounds towards minus infinity, as \<open>div\<close> and \<open>mod\<close> on \<open>int\<close> do.\<close>

definition divmod_py :: "int \<Rightarrow> int \<Rightarrow> int \<times> int" where
  "divmod_py a b = (a div b, a mod b)"

text \<open>\<^verbatim>\<open>xs[i]\<close> on a list.\<close>

definition getitem :: "'a list \<Rightarrow> int \<Rightarrow> error + 'a" where
  "getitem xs i =
     (case py_index (length xs) i of None \<Rightarrow> Inl IndexError | Some k \<Rightarrow> Inr (xs ! k))"

text \<open>
  The body of \<^verbatim>\<open>format_times\<close> in \<^verbatim>\<open>main.py\<close>, after
  \<^verbatim>\<open>seconds = self.thresh_times[idx]\<close>.
\<close>

definition format_secs_main :: "int \<Rightarrow> string" where
  "format_secs_main seconds =
     (let (minutes, seconds) = divmod_py seconds 60;
          (hours, minutes) = divmod_py minutes 60;
          (days, hours) = divmod_py hours 24;
          (weeks, days) = divmod_py days 7;
          out = str_int seconds @ '' secs'';
          out = (if minutes > 0 then str_int minutes @ '' mins '' @ out else out);
          out = (if hours > 0 then str_int hours @ '' hours '' @ out else out);
          out = (if days > 0 then str_int days @ '' days '' @ out else out);
          out = (if weeks > 0 then str_int weeks @ '' weeks '' @ out else out)
      in out)"

text \<open>
  The same body in \<^verbatim>\<open>temperature_logger.py\<close>; its last format string is
  \<^verbatim>\<open>"{} weeks"\<close>, with no space after the unit.
\<close>

definition format_secs_logger :: "int \<Rightarrow> string" where
  "format_secs_logger seconds =
     (let (m, s) = divmod_py seconds 60;
          (h, m) = divmod_py m 60;
          (days, h) = divmod_py h 24;
          (weeks, days) = divmod_py days 7;
          out = str_int s @ '' secs'';
          out = (if m > 0 then str_int m @ '' mins '' @ out else out);
          out = (if h > 0 then str_int h @ '' hours '' @ out else out);
          out = (if days > 0 then str_int days @ '' days '' @ out else out);
          out = (if weeks > 0 then str_int weeks @ '' weeks'' @ out else out)
      in out)"

definition format_times_main :: "pico \<Rightarrow> int \<Rightarrow> error + string" where
  "format_times_main s idx =
     (case getitem (thresh_times s) idx of
        Inl e \<Rightarrow> Inl e
      | Inr seconds \<Rightarrow> Inr (format_secs_main seconds))"

definition format_times_logger :: "pico \<Rightarrow> int \<Rightarrow> error + string" where
  "format_times_logger s idx =
     (case getitem (thresh_times s) idx of
        Inl e \<Rightarrow> Inl e
      | Inr seconds \<Rightarrow> Inr (format_secs_logger seconds))"

text \<open>
  The rendering as the specification words it: each unit above the second is written, number
  then name, only when it is positive; the seconds are always written; the parts are separated
  by one space, largest unit first.
\<close>

definition unit_part :: "int \<Rightarrow> string \<Rightarrow> string" where
  "unit_part n name = (if n > 0 then str_int n @ '' '' @ name @ '' '' else [])"

definition dwell_spec :: "int \<Rightarrow> string" where
  "dwell_spec n =
     unit_part (n div 604800) ''weeks'' @ unit_part (n div 86400 mod 7) ''days'' @
     unit_part (n div 3600 mod 24) ''hours'' @ unit_part (n div 60 mod 60) ''mins'' @
     str_int (n mod 60) @ '' secs''"

section \<open>Routes (\<^verbatim>\<open>get_route\<close>)\<close>

datatype handler = Index_page | Led_on | Led_off | Garden_temp_page | Not_found

text \<open>The dictionary \<^verbatim>\<open>paths\<close>; its keys are distinct.\<close>

definition paths :: "(string \<times> handler) list" where
  "paths =
     [(''/'', Index_page),
      (''/method=%22post%22?toggle_led=On'', Led_on),
      (''/method=%22post%22?toggle_led=Off'', Led_off),
      (''/garden_temps'', Garden_temp_page),
      (''/notfound'', Not_found)]"

definition dict_getitem :: "('k \<times> 'v) list \<Rightarrow> 'k \<Rightarrow> error + 'v" where
  "dict_getitem d k = (case map_of d k of None \<Rightarrow> Inl KeyError | Some v \<Rightarrow> Inr v)"

definition get_route :: "string \<Rightarrow> error + handler" where
  "get_route path =
     (if path \<notin> fst ` set paths then dict_getitem paths ''/notfound''
      else dict_getitem paths path)"

section \<open>The connection handler (\<^verbatim>\<open>handle_client\<close>)\<close>

text \<open>
  A line is a byte string. \<^verbatim>\<open>decode("utf8")\<close> raises \<open>UnicodeError\<close> on a line that is not
  well-formed UTF-8, in the sense of the Unicode standard (no stray or missing continuation
  byte, no overlong form, no surrogate, nothing above U+10FFFF); a decoder that checks less
  accepts the well-formed lines all the same. A well-formed line is kept as its bytes, which
  stand for the decoded text: searching for an ASCII substring and splitting at the space
  give the same result on the bytes as on the text.
\<close>

definition byte_in :: "char \<Rightarrow> nat \<Rightarrow> nat \<Rightarrow> bool" where
  "byte_in c lo hi \<longleftrightarrow> lo \<le> of_char c \<and> (of_char c :: nat) \<le> hi"

fun valid_utf8 :: "string \<Rightarrow> bool" where
  "valid_utf8 [] = True"
| "valid_utf8 (c # cs) =
     (if byte_in c 0x00 0x7F then valid_utf8 cs
      else if byte_in c 0xC2 0xDF then
        (case cs of
           c1 # r \<Rightarrow> byte_in c1 0x80 0xBF \<and> valid_utf8 r
         | _ \<Rightarrow> False)
      else if byte_in c 0xE0 0xEF then
        (case cs of
           c1 # c2 # r \<Rightarrow>
             byte_in c1 (if c = CHR 0xE0 then 0xA0 else 0x80) (if c = CHR 0xED then 0x9F else 0xBF) \<and>
             byte_in c2 0x80 0xBF \<and> valid_utf8 r
         | _ \<Rightarrow> False)
      else if byte_in c 0xF0 0xF4 then
        (case cs of
           c1 # c2 # c3 # r \<Rightarrow>
             byte_in c1 (if c = CHR 0xF0 then 0x90 else 0x80) (if c = CHR 0xF4 then 0x8F else 0xBF) \<and>
             byte_in c2 0x80 0xBF \<and> byte_in c3 0x80 0xBF \<and> valid_utf8 r
         | _ \<Rightarrow> False)
      else False)"

definition decode_utf8 :: "string \<Rightarrow> error + string" where
  "decode_utf8 bs = (if valid_utf8 bs then Inr bs else Inl UnicodeError)"

definition crlf :: string where
  "crlf = [CHR 0x0D, CHR 0x0A]"

fun startswith :: "string \<Rightarrow> string \<Rightarrow> bool" where
  "startswith s [] = True"
| "startswith [] (p # ps) = False"
| "startswith (c # cs) (p # ps) = (c = p \<and> startswith cs ps)"

text \<open>\<^verbatim>\<open>sub in s\<close>\<close>

fun str_contains :: "string \<Rightarrow> string \<Rightarrow> bool" where
  "str_contains [] sub = (sub = [])"
| "str_contains (c # cs) sub = (startswith (c # cs) sub \<or> str_contains cs sub)"

text \<open>
  \<^verbatim>\<open>s.split(sep)\<close> for a separator of one character: every occurrence of the separator
  ends a field, so two separators in a row enclose an empty field.
\<close>

fun split_py :: "char \<Rightarrow> string \<Rightarrow> string list" where
  "split_py sep [] = [[]]"
| "split_py sep (c # cs) =
     (if c = sep then [] # split_py sep cs
      else (case split_py sep cs of [] \<Rightarrow> [[c]] | w # ws \<Rightarrow> (c # w) # ws))"

text \<open>
  The reader holds the lines the client has sent; \<^verbatim>\<open>readline\<close> takes the next one, and
  returns the empty string for ever once the client has closed its side.
\<close>

fun readline :: "string list \<Rightarrow> string \<times> string list" where
  "readline [] = ([], [])"
| "readline (l # ls) = (l, ls)"

text \<open>
  \<^verbatim>\<open>
  while req != "\r\n":
      req = (await reader.readline()).decode("utf8")
      if req is not None and "HTTP/1.1" in req:
          req_type=req.split(" ")
          method=req_type[0]
          path=req_type[1]
  \<close>
  The loop need not end, so its result is optional; it yields the method, the path and
  what is left in the reader, or the exception of \<^verbatim>\<open>decode\<close> or of \<^verbatim>\<open>req_type[1]\<close>.
\<close>

partial_function (option) request_loop ::
  "string option \<Rightarrow> string \<Rightarrow> string \<Rightarrow> string list \<Rightarrow> (error + string \<times> string \<times> string list) option"
where
  "request_loop req method path reader =
     (if req = Some crlf then Some (Inr (method, path, reader))
      else
        (case decode_utf8 (fst (readline reader)) of
           Inl e \<Rightarrow> Some (Inl e)
         | Inr req \<Rightarrow>
             (let reader = snd (readline reader)
              in if str_contains req ''HTTP/1.1'' then
                   (case split_py (CHR '' '') req of
                      m # p # _ \<Rightarrow> request_loop (Some req) m p reader
                    | _ \<Rightarrow> Some (Inl IndexError))
                 else request_loop (Some req) method path reader)))"





text \<open>
  The handlers, as far as the shared state goes: the new state and the status line written
  first. The page bodies print floats and are not modelled.
\<close>

definition index_page :: "pico \<Rightarrow> pico \<times> string" where
  "index_page s = (s, ''HTTP/1.0 200 OK'')"

definition garden_temp_page :: "pico \<Rightarrow> pico \<times> string" where
  "garden_temp_page s = (s, ''HTTP/1.0 200 OK'')"

definition led_on :: "pico \<Rightarrow> pico \<times> string" where
  "led_on s = index_page (s\<lparr>pins := (pins s)(User_led := True)\<rparr>)"

definition led_off :: "pico \<Rightarrow> pico \<times> string" where
  "led_off s = index_page (s\<lparr>pins := (pins s)(User_led := False)\<rparr>)"

definition not_found :: "pico \<Rightarrow> pico \<times> string" where
  "not_found s = (s, ''HTTP/1.0 404 Not Found'')"

fun run_handler :: "handler \<Rightarrow> pico \<Rightarrow> pico \<times> string" where
  "run_handler Index_page s = index_page s"
| "run_handler Led_on s = led_on s"
| "run_handler Led_off s = led_off s"
| "run_handler Garden_temp_page s = garden_temp_page s"
| "run_handler Not_found s = not_found s"

text \<open>\<^verbatim>\<open>led.toggle()\<close>, which the decorator \<^verbatim>\<open>blink_led\<close> runs before the wrapped function.\<close>

definition toggle :: "pin \<Rightarrow> pico \<Rightarrow> pico" where
  "toggle p s = s\<lparr>pins := (pins s)(p := \<not> pins s p)\<rparr>"

text \<open>
  One connection: the state it leaves and, unless the request loop runs for ever, the
  exception or the status line of the response.
\<close>

definition handle_client :: "string list \<Rightarrow> pico \<Rightarrow> pico \<times> (error + string) option" where
  "handle_client reader s =
     (let s1 = toggle Http_connection_led s
      in case request_loop None [] [] reader of
           None \<Rightarrow> (s1, None)
         | Some (Inl e) \<Rightarrow> (s1, Some (Inl e))
         | Some (Inr (method, path, reader')) \<Rightarrow>
             (case get_route path of
                Inl e \<Rightarrow> (s1, Some (Inl e))
              | Inr route \<Rightarrow> (fst (run_handler route s1), Some (Inr (snd (run_handler route s1))))))"

section \<open>The heartbeat duty and the interleaving of the duties\<close>

text \<open>\<^verbatim>\<open>watchdog\<close>, decorated with \<^verbatim>\<open>blink_led(led=watchdog_led)\<close>.\<close>

definition watchdog :: "pico \<Rightarrow> pico" where
  "watchdog s = (let s1 = toggle Watchdog_led s in s1\<lparr>watchdog_val := watchdog_val s1 + 1\<rparr>)"

text \<open>
  The scheduler is cooperative: a duty runs from one \<^verbatim>\<open>await\<close> to the next without
  interruption. One heartbeat cycle and one sampling iteration contain no \<^verbatim>\<open>await\<close>; a
  connection is suspended at each \<^verbatim>\<open>readline\<close>, but between them it writes its own local
  variables only, so it is taken as one step. A run of the system is a list of such steps
  in the order the scheduler ran them. A sampling step is modelled also after the sampling
  task has ended with an exception, which covers more runs than the program has.
\<close>

datatype duty_op = Watchdog_op | Sample_op real | Client_op "string list"

fun duty_step :: "duty_op \<Rightarrow> pico \<Rightarrow> pico" where
  "duty_step Watchdog_op s = watchdog s"
| "duty_step (Sample_op f) s = fst (cache_temp_body_main f s)"
| "duty_step (Client_op reader) s = fst (handle_client reader s)"

definition run_ops :: "duty_op list \<Rightarrow> pico \<Rightarrow> pico" where
  "run_ops ops s = fold duty_step ops s"

section \<open>Properties of the sampling duty\<close>

lemma update_extrema_simps:
  "temp_f_latest (update_extrema f s) = f"
  "temp_f_min (update_extrema f s) = min (temp_f_min s) f"
  "temp_f_max (update_extrema f s) = max (temp_f_max s) f"
  "thresh_times (update_extrema f s) = thresh_times s"
  "pins (update_extrema f s) = pins s"
  "watchdog_val (update_extrema f s) = watchdog_val s"
  by (simp_all add: update_extrema_def)

subsection \<open>Classification\<close>

lemma on_item_empty_iff:
  "on_item f = [] \<longleftrightarrow>
     f \<le> - 40 \<or> f = 32 \<or> f = 37 \<or> f = 60 \<or> (85 \<le> f \<and> f \<le> 86) \<or> 176 \<le> f"
  by (auto simp: on_item_def thresholds_def)

lemma on_idx_empty: "on_item f = [] \<Longrightarrow> on_idx f = Inl IndexError"
  by (simp add: on_idx_def)

lemma on_idx_range: "on_idx f = Inr i \<Longrightarrow> i \<in> {0, 1, 2, 3, 4}"
  by (auto simp: on_idx_def on_item_def thresholds_def split: list.splits if_splits)

lemma on_idx_cases: "on_item f = [] \<or> (\<exists>i. on_idx f = Inr i)"
  by (auto simp: on_idx_def on_item_def thresholds_def)

text \<open>
  C2. A reading strictly inside the open interval of band \<open>i\<close> of the threshold table passes
  the strict test of that band and of no other, and the classification yields the position
  \<open>i\<close>, the first match in table order.
\<close>

theorem on_idx_band:
  assumes "i < 5"
    and "real_of_int (fst (thresholds ! i)) < f"
    and "f < real_of_int (snd (thresholds ! i))"
  shows "on_item f = [thresholds ! i] \<and> on_idx f = Inr (int i)"
proof -
  from assms(1) consider "i = 0" | "i = 1" | "i = 2" | "i = 3" | "i = 4" by linarith
  then show ?thesis
  proof cases
    case 1 with assms show ?thesis by (simp add: on_item_def on_idx_def thresholds_def)
  next
    case 2 with assms show ?thesis by (simp add: on_item_def on_idx_def thresholds_def)
  next
    case 3 with assms show ?thesis by (simp add: on_item_def on_idx_def thresholds_def)
  next
    case 4 with assms show ?thesis by (simp add: on_item_def on_idx_def thresholds_def)
  next
    case 5 with assms show ?thesis by (simp add: on_item_def on_idx_def thresholds_def)
  qed
qed

theorem on_idx_band_witness:
  "(3::nat) < 5 \<and> real_of_int (fst (thresholds ! 3)) < 70 \<and> 70 < real_of_int (snd (thresholds ! 3)) \<and>
   on_item 70 = [thresholds ! 3] \<and> on_idx 70 = Inr (int 3)"
proof -
  have h: "(3::nat) < 5" "real_of_int (fst (thresholds ! 3)) < 70"
    "70 < real_of_int (snd (thresholds ! 3))"
    by (simp_all add: thresholds_def)
  from on_idx_band[OF h] h show ?thesis by simp
qed

subsection \<open>One iteration\<close>

text \<open>
  In \<^verbatim>\<open>main.py\<close> the loop over the indicators calls \<^verbatim>\<open>value\<close> on the position, an
  integer, so its first iteration raises and nothing is written.
\<close>

lemma thresh_loop_main_raises:
  "thresh_loop_main ((led, idx) # rest) on s = (s, Some AttributeError)"
  by simp

lemma cache_temp_body_main_cases:
  "cache_temp_body_main f s =
     (update_extrema f s, Some (if on_item f = [] then IndexError else AttributeError))"
proof (cases "on_item f")
  case Nil
  then show ?thesis
    by (simp add: cache_temp_body_main_def on_idx_def update_extrema_simps)
next
  case (Cons item rest)
  then have "item \<in> set thresholds"
    by (metis filter_is_subset list.set_intros(1) on_item_def subsetD)
  then obtain i where "index_py thresholds item = Inr i"
    by (auto simp: thresholds_def)
  with Cons show ?thesis
    by (simp add: cache_temp_body_main_def on_idx_def update_extrema_simps
        enumerate_py_def thresh_leds_def)
qed

lemma cache_temp_main_first:
  "cache_temp_main (f # fs) s = cache_temp_body_main f s"
  by (simp add: cache_temp_main_def cache_temp_body_main_cases)

lemma upt5: "[0..<5] = [0, 1, 2, 3, 4]"
  by code_simp

text \<open>
  In \<^verbatim>\<open>temperature_logger.py\<close> the loop sets the five indicators and adds one second to
  the band that matched.
\<close>

lemma thresh_loop_logger_hit:
  assumes "length (thresh_times s) = 5" "i \<in> {0, 1, 2, 3, 4}"
  shows "thresh_loop_logger [0..<length thresh_leds] i s =
           (s\<lparr>pins := (\<lambda>p. if p \<in> set thresh_leds then p = thresh_leds ! nat i else pins s p),
              thresh_times := (thresh_times s)[nat i := thresh_times s ! nat i + 1]\<rparr>, None)"
proof -
  have len: "[0..<length thresh_leds] = [0, 1, 2, 3, 4]"
    by (simp add: thresh_leds_def upt5)
  from assms(2) consider "i = 0" | "i = 1" | "i = 2" | "i = 3" | "i = 4" by auto
  then show ?thesis
  proof cases
    case 1 with assms(1) show ?thesis unfolding len
      by (auto simp: thresh_leds_def py_index_def fun_eq_iff intro!: pico.equality)
  next
    case 2 with assms(1) show ?thesis unfolding len
      by (auto simp: thresh_leds_def py_index_def fun_eq_iff intro!: pico.equality)
  next
    case 3 with assms(1) show ?thesis unfolding len
      by (auto simp: thresh_leds_def py_index_def fun_eq_iff intro!: pico.equality)
  next
    case 4 with assms(1) show ?thesis unfolding len
      by (auto simp: thresh_leds_def py_index_def fun_eq_iff intro!: pico.equality)
  next
    case 5 with assms(1) show ?thesis unfolding len
      by (auto simp: thresh_leds_def py_index_def fun_eq_iff intro!: pico.equality)
  qed
qed

lemma cache_temp_body_logger_hit:
  assumes "length (thresh_times s) = 5" "on_idx f = Inr i"
  shows "cache_temp_body_logger f s =
           ((update_extrema f s)
              \<lparr>pins := (\<lambda>p. if p \<in> set thresh_leds then p = thresh_leds ! nat i else pins s p),
               thresh_times := (thresh_times s)[nat i := thresh_times s ! nat i + 1]\<rparr>, None)"
  using thresh_loop_logger_hit[of "update_extrema f s" i] on_idx_range[OF assms(2)] assms
  by (simp add: cache_temp_body_logger_def update_extrema_simps)

lemma cache_temp_body_logger_miss:
  "on_item f = [] \<Longrightarrow> cache_temp_body_logger f s = (update_extrema f s, Some IndexError)"
  by (simp add: cache_temp_body_logger_def on_idx_def update_extrema_simps)

text \<open>
  C1. The specification has a reading of exactly 85 or 86 classified to "none", the
  iteration completing without error. In both files the iteration stores the reading and the
  extrema and then raises \<open>IndexError\<close> at \<^verbatim>\<open>on_item[0]\<close>; the indicators and the dwell
  times are as before, but the sampling task has ended.
\<close>

theorem gap_reading_raises:
  "cache_temp_body_main 85 s = (update_extrema 85 s, Some IndexError) \<and>
   cache_temp_body_main 86 s = (update_extrema 86 s, Some IndexError) \<and>
   cache_temp_body_logger 85 s = (update_extrema 85 s, Some IndexError) \<and>
   cache_temp_body_logger 86 s = (update_extrema 86 s, Some IndexError) \<and>
   pins (update_extrema f s) = pins s \<and> thresh_times (update_extrema f s) = thresh_times s"
  by (simp add: cache_temp_body_main_cases cache_temp_body_logger_miss on_item_empty_iff
      update_extrema_simps)

text \<open>
  C10. A reading equal to an interior bound of the table, 32, 37 or 60, passes the strict test
  of no band; the iteration then takes the very path it takes at 85 and 86, the
  \<open>IndexError\<close> of \<^verbatim>\<open>on_item[0]\<close>. The readings that no band takes are those at or below
  -40, the three interior bounds, the interval from 85 to 86, and those at or above 176.
\<close>

theorem boundary_readings_unclassified:
  "on_item 32 = [] \<and> on_item 37 = [] \<and> on_item 60 = [] \<and>
   on_idx 85 = Inl IndexError \<and>
   on_idx 32 = on_idx 85 \<and> on_idx 37 = on_idx 85 \<and> on_idx 60 = on_idx 85 \<and>
   snd (cache_temp_body_main 32 s) = snd (cache_temp_body_main 85 s) \<and>
   snd (cache_temp_body_main 37 s) = snd (cache_temp_body_main 85 s) \<and>
   snd (cache_temp_body_main 60 s) = snd (cache_temp_body_main 85 s) \<and>
   snd (cache_temp_body_logger 32 s) = snd (cache_temp_body_logger 85 s) \<and>
   snd (cache_temp_body_logger 37 s) = snd (cache_temp_body_logger 85 s) \<and>
   snd (cache_temp_body_logger 60 s) = snd (cache_temp_body_logger 85 s) \<and>
   snd (cache_temp_body_main 85 s) = Some IndexError \<and>
   snd (cache_temp_body_logger 85 s) = Some IndexError \<and>
   (on_item f = [] \<longleftrightarrow>
      f \<le> - 40 \<or> f = 32 \<or> f = 37 \<or> f = 60 \<or> (85 \<le> f \<and> f \<le> 86) \<or> 176 \<le> f)"
proof -
  have e: "on_item 32 = []" "on_item 37 = []" "on_item 60 = []" "on_item 85 = []"
    by (simp_all add: on_item_empty_iff)
  show ?thesis
    using on_item_empty_iff[of f]
    by (simp add: e on_idx_empty cache_temp_body_main_cases cache_temp_body_logger_miss)
qed

theorem boundary_readings_unclassified_witness:
  "on_item 32 = [] \<and> on_idx 37 = Inl IndexError \<and>
   snd (cache_temp_body_main 60 init_pico) = Some IndexError \<and>
   snd (cache_temp_body_logger 60 init_pico) = Some IndexError \<and>
   on_item 176 = []"
  using boundary_readings_unclassified[of init_pico 176] by simp

subsection \<open>Running extrema\<close>

lemma thresh_loop_main_temps:
  "temp_f_latest (fst (thresh_loop_main ps on s)) = temp_f_latest s \<and>
   temp_f_min (fst (thresh_loop_main ps on s)) = temp_f_min s \<and>
   temp_f_max (fst (thresh_loop_main ps on s)) = temp_f_max s"
  by (cases ps) auto

lemma thresh_loop_logger_temps:
  "temp_f_latest (fst (thresh_loop_logger ps on s)) = temp_f_latest s \<and>
   temp_f_min (fst (thresh_loop_logger ps on s)) = temp_f_min s \<and>
   temp_f_max (fst (thresh_loop_logger ps on s)) = temp_f_max s"
  by (induction ps arbitrary: s) (auto simp: py_index_def)

lemma body_main_ordered: "ordered_extrema (fst (cache_temp_body_main f s))"
  by (simp add: cache_temp_body_main_def Let_def ordered_extrema_def thresh_loop_main_temps
      update_extrema_simps split: sum.split)

lemma body_logger_ordered: "ordered_extrema (fst (cache_temp_body_logger f s))"
  by (simp add: cache_temp_body_logger_def Let_def ordered_extrema_def thresh_loop_logger_temps
      update_extrema_simps split: sum.split)

lemma run_ticks_ordered:
  assumes body: "\<And>f s. ordered_extrema (fst (body f s))"
  shows "ordered_extrema s \<or> fs \<noteq> [] \<Longrightarrow> ordered_extrema (fst (run_ticks body fs s))"
proof (induction fs arbitrary: s)
  case Nil
  then show ?case by simp
next
  case (Cons f fs)
  obtain s1 r where b: "body f s = (s1, r)" by (cases "body f s")
  with body[of f s] have o: "ordered_extrema s1" by simp
  show ?case
  proof (cases r)
    case None
    with b Cons.IH[of s1] o show ?thesis by simp
  next
    case (Some e)
    with b o show ?thesis by simp
  qed
qed

text \<open>
  C7. Once the sampling loop has run at least one iteration, from any state whatever and
  on any readings, the state it has reached satisfies
  \<open>temp_f_min \<le> temp_f_latest \<le> temp_f_max\<close>; this holds in both files, and also when
  an iteration ended with an exception. Since the start state is arbitrary, every later
  iteration keeps the ordering.
\<close>

theorem extrema_ordered:
  assumes "fs \<noteq> []"
  shows "temp_f_min (fst (cache_temp_main fs s)) \<le> temp_f_latest (fst (cache_temp_main fs s)) \<and>
         temp_f_latest (fst (cache_temp_main fs s)) \<le> temp_f_max (fst (cache_temp_main fs s)) \<and>
         temp_f_min (fst (cache_temp_logger fs s)) \<le> temp_f_latest (fst (cache_temp_logger fs s)) \<and>
         temp_f_latest (fst (cache_temp_logger fs s)) \<le> temp_f_max (fst (cache_temp_logger fs s))"
  using run_ticks_ordered[of cache_temp_body_main s fs, OF body_main_ordered]
    run_ticks_ordered[of cache_temp_body_logger s fs, OF body_logger_ordered] assms
  by (simp add: cache_temp_main_def cache_temp_logger_def ordered_extrema_def)

theorem extrema_ordered_witness:
  "[70, - 10] \<noteq> ([]::real list) \<and>
   temp_f_min (fst (cache_temp_main [70, - 10] init_pico))
     \<le> temp_f_latest (fst (cache_temp_main [70, - 10] init_pico)) \<and>
   temp_f_latest (fst (cache_temp_main [70, - 10] init_pico))
     \<le> temp_f_max (fst (cache_temp_main [70, - 10] init_pico)) \<and>
   temp_f_min (fst (cache_temp_logger [70, - 10] init_pico))
     \<le> temp_f_latest (fst (cache_temp_logger [70, - 10] init_pico)) \<and>
   temp_f_latest (fst (cache_temp_logger [70, - 10] init_pico))
     \<le> temp_f_max (fst (cache_temp_logger [70, - 10] init_pico))"
proof -
  have h: "[70, - 10] \<noteq> ([]::real list)" by simp
  from extrema_ordered[OF h, of init_pico] h show ?thesis by simp
qed

text \<open>
  What the three assignments compute over several readings: the minimum and the maximum of
  the readings, capped by the values the attributes had at the start. From the initial state
  these are 1000 and 0.
\<close>

lemma fold_update_extrema:
  "fs \<noteq> [] \<Longrightarrow>
   temp_f_min (fold update_extrema fs s) = min (temp_f_min s) (Min (set fs)) \<and>
   temp_f_max (fold update_extrema fs s) = max (temp_f_max s) (Max (set fs))"
proof (induction fs arbitrary: s)
  case Nil
  then show ?case by simp
next
  case (Cons f fs)
  show ?case
  proof (cases "fs = []")
    case True
    then show ?thesis by (simp add: update_extrema_simps)
  next
    case False
    with Cons.IH[of "update_extrema f s"] show ?thesis
      by (simp add: update_extrema_simps min.assoc max.assoc)
  qed
qed

text \<open>
  C3. The specification has \<open>temp_f_max\<close> equal to the maximum of the readings after any
  number of iterations, the sentinel 0 never surviving. A single reading of -10, which the
  first band takes, leaves \<open>temp_f_max\<close> at 0 in both files, while \<open>temp_f_min\<close> is -10.
\<close>

theorem max_sentinel_survives:
  "on_idx (- 10) = Inr 0 \<and>
   temp_f_max (fst (cache_temp_main [- 10] init_pico)) = 0 \<and>
   temp_f_min (fst (cache_temp_main [- 10] init_pico)) = - 10 \<and>
   temp_f_latest (fst (cache_temp_main [- 10] init_pico)) = - 10 \<and>
   temp_f_max (fst (cache_temp_logger [- 10] init_pico)) = 0"
proof -
  have i: "on_idx (- 10) = Inr 0"
    by (simp add: on_idx_def on_item_def thresholds_def)
  have l: "length (thresh_times init_pico) = 5"
    and v: "temp_f_max init_pico = 0" "temp_f_min init_pico = 1000"
    by (simp_all add: init_pico_def)
  show ?thesis
    by (simp add: i cache_temp_main_first cache_temp_body_main_cases cache_temp_logger_def
        cache_temp_body_logger_hit[OF l i] update_extrema_simps v)
qed

subsection \<open>Dwell times\<close>

lemma cache_temp_main_thresh_times:
  "thresh_times (fst (cache_temp_main fs s)) = thresh_times s"
  by (cases fs)
    (simp_all add: cache_temp_main_first cache_temp_body_main_cases update_extrema_simps
      cache_temp_main_def)

text \<open>
  In \<^verbatim>\<open>temperature_logger.py\<close>, as long as every reading is classified, the loop goes
  on and the dwell time of band \<open>k\<close> grows by one for each reading classified to \<open>k\<close>.
\<close>

lemma cache_temp_logger_counts:
  assumes "length (thresh_times s) = 5" "\<forall>f \<in> set fs. on_item f \<noteq> []" "k < 5"
  shows "snd (cache_temp_logger fs s) = None \<and>
         length (thresh_times (fst (cache_temp_logger fs s))) = 5 \<and>
         thresh_times (fst (cache_temp_logger fs s)) ! k =
           thresh_times s ! k + ticks_in_band (int k) fs"
  using assms
proof (induction fs arbitrary: s)
  case Nil
  then show ?case by (simp add: cache_temp_logger_def ticks_in_band_def)
next
  case (Cons f fs)
  from Cons.prems(2) on_idx_cases[of f] obtain i where i: "on_idx f = Inr i" by auto
  define s1 where "s1 = fst (cache_temp_body_logger f s)"
  have b: "cache_temp_body_logger f s = (s1, None)"
    unfolding s1_def using cache_temp_body_logger_hit[OF Cons.prems(1) i] by simp
  have tt: "thresh_times s1 = (thresh_times s)[nat i := thresh_times s ! nat i + 1]"
    unfolding s1_def using cache_temp_body_logger_hit[OF Cons.prems(1) i] by simp
  then have l1: "length (thresh_times s1) = 5" using Cons.prems(1) by simp
  have step: "cache_temp_logger (f # fs) s = cache_temp_logger fs s1"
    using b by (simp add: cache_temp_logger_def)
  have ir: "0 \<le> i" using on_idx_range[OF i] by auto
  have k1: "thresh_times s1 ! k = thresh_times s ! k + (if int k = i then 1 else 0)"
    using tt Cons.prems(1,3) ir by (auto simp: nth_list_update)
  from Cons.IH[OF l1 _ Cons.prems(3)] Cons.prems(2) step k1 i
  show ?case by (auto simp: ticks_in_band_def)
qed

lemma sum_list_bump:
  fixes xs :: "int list"
  shows "k < length xs \<Longrightarrow> sum_list (xs[k := xs ! k + 1]) = sum_list xs + 1"
proof (induction xs arbitrary: k)
  case Nil
  then show ?case by simp
next
  case (Cons x xs)
  then show ?case by (cases k) simp_all
qed

lemma cache_temp_logger_sum:
  assumes "length (thresh_times s) = 5"
  shows "sum_list (thresh_times (fst (cache_temp_logger fs s)))
           \<le> sum_list (thresh_times s) + int (length fs)"
  using assms
proof (induction fs arbitrary: s)
  case Nil
  then show ?case by (simp add: cache_temp_logger_def)
next
  case (Cons f fs)
  from on_idx_cases[of f] show ?case
  proof
    assume "on_item f = []"
    then show ?thesis
      by (simp add: cache_temp_logger_def cache_temp_body_logger_miss update_extrema_simps)
  next
    assume "\<exists>i. on_idx f = Inr i"
    then obtain i where i: "on_idx f = Inr i" ..
    define s1 where "s1 = fst (cache_temp_body_logger f s)"
    have b: "cache_temp_body_logger f s = (s1, None)"
      unfolding s1_def using cache_temp_body_logger_hit[OF Cons.prems i] by simp
    have tt: "thresh_times s1 = (thresh_times s)[nat i := thresh_times s ! nat i + 1]"
      unfolding s1_def using cache_temp_body_logger_hit[OF Cons.prems i] by simp
    have "nat i < length (thresh_times s)"
      using on_idx_range[OF i] Cons.prems by auto
    then have sm: "sum_list (thresh_times s1) = sum_list (thresh_times s) + 1"
      unfolding tt by (rule sum_list_bump)
    have l1: "length (thresh_times s1) = 5" using tt Cons.prems by simp
    have "cache_temp_logger (f # fs) s = cache_temp_logger fs s1"
      using b by (simp add: cache_temp_logger_def)
    with Cons.IH[OF l1] sm show ?thesis by simp
  qed
qed

text \<open>
  C6. The specification has the dwell time of the matched band grow by one second in every
  iteration. In \<^verbatim>\<open>main.py\<close> a reading of 70 is classified to band 3, and the iteration
  then ends with \<open>AttributeError\<close> before any dwell time is written: the list is still all
  zeros. \<^verbatim>\<open>temperature_logger.py\<close> counts the second.
\<close>

theorem main_tick_counts_nothing:
  "on_idx 70 = Inr 3 \<and>
   cache_temp_body_main 70 init_pico = (update_extrema 70 init_pico, Some AttributeError) \<and>
   thresh_times (fst (cache_temp_main [70] init_pico)) = [0, 0, 0, 0, 0] \<and>
   cache_temp_logger [70] init_pico =
     ((update_extrema 70 init_pico)
        \<lparr>pins := (\<lambda>p. if p \<in> set thresh_leds then p = thresh_leds ! nat 3 else pins init_pico p),
         thresh_times := [0, 0, 0, 1, 0]\<rparr>, None)"
proof -
  have i: "on_idx 70 = Inr 3"
    by (simp add: on_idx_def on_item_def thresholds_def)
  have e: "on_item 70 \<noteq> []"
    by (simp add: on_item_def thresholds_def)
  have l: "length (thresh_times init_pico) = 5" and t: "thresh_times init_pico = [0, 0, 0, 0, 0]"
    by (simp_all add: init_pico_def)
  show ?thesis
    by (simp add: i e t cache_temp_main_thresh_times cache_temp_body_main_cases
        cache_temp_logger_def cache_temp_body_logger_hit[OF l i])
qed

section \<open>Properties of the dwell-time formatter\<close>

lemma div_div_int:
  "(n::int) div 60 div 60 = n div 3600"
  "(n::int) div 3600 div 24 = n div 86400"
  "(n::int) div 86400 div 7 = n div 604800"
  by (simp_all add: zdiv_zmult2_eq[symmetric])

lemma render_units:
  fixes s m h d w :: int
  shows "(let out = str_int s @ '' secs'';
              out = (if m > 0 then str_int m @ '' mins '' @ out else out);
              out = (if h > 0 then str_int h @ '' hours '' @ out else out);
              out = (if d > 0 then str_int d @ '' days '' @ out else out);
              out = (if w > 0 then str_int w @ '' weeks '' @ out else out)
          in out) =
         unit_part w ''weeks'' @ unit_part d ''days'' @ unit_part h ''hours'' @
         unit_part m ''mins'' @ str_int s @ '' secs''"
  by (simp add: Let_def unit_part_def)

lemma format_secs_main_unfold:
  "format_secs_main n =
     (let out = str_int (n mod 60) @ '' secs'';
          out = (if n div 60 mod 60 > 0 then str_int (n div 60 mod 60) @ '' mins '' @ out else out);
          out = (if n div 60 div 60 mod 24 > 0
                 then str_int (n div 60 div 60 mod 24) @ '' hours '' @ out else out);
          out = (if n div 60 div 60 div 24 mod 7 > 0
                 then str_int (n div 60 div 60 div 24 mod 7) @ '' days '' @ out else out);
          out = (if n div 60 div 60 div 24 div 7 > 0
                 then str_int (n div 60 div 60 div 24 div 7) @ '' weeks '' @ out else out)
      in out)"
  by (simp only: format_secs_main_def divmod_py_def Let_def prod.case)

text \<open>
  The formatter of \<^verbatim>\<open>main.py\<close> renders every number of seconds as the specification
  words it, and gives the four strings the specification lists.
\<close>

lemma format_secs_main_spec: "format_secs_main n = dwell_spec n"
  by (simp only: format_secs_main_unfold render_units dwell_spec_def div_div_int)

lemma format_secs_main_examples:
  "format_secs_main 0 = ''0 secs''"
  "format_secs_main 59 = ''59 secs''"
  "format_secs_main 60 = ''1 mins 0 secs''"
  "format_secs_main 90061 = ''1 days 1 hours 1 mins 1 secs''"
  "format_secs_main 604800 = ''1 weeks 0 secs''"
  by code_simp+

lemma dwell_units_total:
  fixes n :: int
  shows "n div 604800 * 604800 + n div 86400 mod 7 * 86400 + n div 3600 mod 24 * 3600 +
         n div 60 mod 60 * 60 + n mod 60 = n"
proof -
  have a: "n = n div 60 * 60 + n mod 60" by simp
  have b: "n div 60 = n div 3600 * 60 + n div 60 mod 60"
    using div_mult_mod_eq[of "n div 60" 60] by (simp add: div_div_int)
  have c: "n div 3600 = n div 86400 * 24 + n div 3600 mod 24"
    using div_mult_mod_eq[of "n div 3600" 24] by (simp add: div_div_int)
  have d: "n div 86400 = n div 604800 * 7 + n div 86400 mod 7"
    using div_mult_mod_eq[of "n div 86400" 7] by (simp add: div_div_int)
  from a b c d show ?thesis by linarith
qed

lemma format_secs_logger_week: "format_secs_logger 604800 = ''1 weeks0 secs''"
  by code_simp

lemma getitem_example: "getitem [0, 0, 0, 604800, 0::int] 3 = Inr 604800"
  by (simp add: getitem_def py_index_def)

text \<open>
  C5. The specification has the units joined by single spaces. The formatter of
  \<^verbatim>\<open>temperature_logger.py\<close> writes the weeks without the space after the unit name: a dwell
  time of 604800 seconds is rendered \<open>1 weeks0 secs\<close>, where \<^verbatim>\<open>main.py\<close> and the
  specification give \<open>1 weeks 0 secs\<close>.
\<close>

theorem format_times_logger_week:
  "format_times_logger (init_pico\<lparr>thresh_times := [0, 0, 0, 604800, 0]\<rparr>) 3 = Inr ''1 weeks0 secs'' \<and>
   format_times_main (init_pico\<lparr>thresh_times := [0, 0, 0, 604800, 0]\<rparr>) 3 = Inr ''1 weeks 0 secs'' \<and>
   dwell_spec 604800 = ''1 weeks 0 secs''"
proof -
  have t: "thresh_times (init_pico\<lparr>thresh_times := [0, 0, 0, 604800, 0]\<rparr>) = [0, 0, 0, 604800, 0]"
    by (simp add: init_pico_def)
  show ?thesis
    unfolding format_times_logger_def format_times_main_def t getitem_example
      format_secs_main_spec[symmetric]
    by (simp add: format_secs_logger_week format_secs_main_examples)
qed

section \<open>Properties of the routes\<close>

text \<open>
  C8. A path is looked up by equality of strings: the four literal paths resolve to their
  handlers, and every other path, a path with a trailing slash or other spelling among
  them, resolves to \<open>not_found\<close>.
\<close>

theorem get_route_exact:
  "get_route ''/'' = Inr Index_page \<and>
   get_route ''/garden_temps'' = Inr Garden_temp_page \<and>
   get_route ''/method=%22post%22?toggle_led=On'' = Inr Led_on \<and>
   get_route ''/method=%22post%22?toggle_led=Off'' = Inr Led_off \<and>
   (path \<notin> {''/'', ''/garden_temps'', ''/method=%22post%22?toggle_led=On'',
              ''/method=%22post%22?toggle_led=Off''} \<longrightarrow> get_route path = Inr Not_found)"
  by (simp add: get_route_def paths_def dict_getitem_def)

theorem get_route_exact_witness:
  "''/garden_temps/'' \<notin> {''/'', ''/garden_temps'', ''/method=%22post%22?toggle_led=On'',
              ''/method=%22post%22?toggle_led=Off''} \<and>
   get_route ''/garden_temps/'' = Inr Not_found \<and>
   get_route ''/Garden_temps'' = Inr Not_found \<and>
   get_route ''/nonexistent'' = Inr Not_found \<and>
   get_route ''/'' = Inr Index_page"
  using get_route_exact[of "''/garden_temps/''"] get_route_exact[of "''/Garden_temps''"]
    get_route_exact[of "''/nonexistent''"]
  by simp

section \<open>Properties of the request loop\<close>






text \<open>A marker line without a space has one field only, and \<^verbatim>\<open>req_type[1]\<close> raises.\<close>

lemma request_loop_one_field:
  "request_loop None [] [] [''HTTP/1.1'' @ crlf, crlf] = Some (Inl IndexError)"
  by (simp add: request_loop.simps decode_utf8_def byte_in_def crlf_def)

text \<open>
  A line that is not well-formed UTF-8 ends the handler with the exception of
  \<^verbatim>\<open>decode\<close>, whether or not it carries the marker; no field is taken from it.
\<close>

lemma request_loop_undecodable:
  "request_loop None [] [] [''GET /'' @ [CHR 0xFF] @ '' HTTP/1.1'' @ crlf, crlf] =
     Some (Inl UnicodeError)"
  "request_loop None [] [] [''GET / HTTP/1.1'' @ crlf, ''X: '' @ [CHR 0xC3] @ crlf, crlf] =
     Some (Inl UnicodeError)"
  by (simp_all add: request_loop.simps decode_utf8_def byte_in_def crlf_def)




section \<open>Properties of the heartbeat counter\<close>

lemma toggle_watchdog_val: "watchdog_val (toggle p s) = watchdog_val s"
  by (simp add: toggle_def)

lemma run_handler_watchdog_val: "watchdog_val (fst (run_handler h s)) = watchdog_val s"
  by (cases h)
    (simp_all add: index_page_def garden_temp_page_def led_on_def led_off_def not_found_def)

lemma handle_client_watchdog_val: "watchdog_val (fst (handle_client reader s)) = watchdog_val s"
  by (simp add: handle_client_def Let_def toggle_watchdog_val run_handler_watchdog_val
      split: option.split sum.split prod.split)

lemma body_main_watchdog_val: "watchdog_val (fst (cache_temp_body_main f s)) = watchdog_val s"
  by (simp add: cache_temp_body_main_cases update_extrema_simps)

lemma watchdog_inc: "watchdog_val (watchdog s) = watchdog_val s + 1"
  by (simp add: watchdog_def toggle_def)

lemma duty_step_watchdog_val:
  "watchdog_val (duty_step op s) = watchdog_val s + (if op = Watchdog_op then 1 else 0)"
  by (cases op) (simp_all add: watchdog_inc body_main_watchdog_val handle_client_watchdog_val)

lemma run_ops_watchdog_val:
  "watchdog_val (run_ops ops s) = watchdog_val s + int (count_list ops Watchdog_op)"
  unfolding run_ops_def
  by (induction ops arbitrary: s) (simp_all add: duty_step_watchdog_val)

text \<open>
  C9. A heartbeat cycle adds exactly one to \<open>watchdog_val\<close>; a sampling iteration and a
  connection leave it as it is; so after any interleaving of the three duties' steps the
  counter is its start value plus the number of heartbeat cycles, and it never decreases.
\<close>

theorem heartbeat_counter:
  "watchdog_val (duty_step Watchdog_op s) = watchdog_val s + 1 \<and>
   watchdog_val (duty_step (Sample_op f) s) = watchdog_val s \<and>
   watchdog_val (duty_step (Client_op reader) s) = watchdog_val s \<and>
   watchdog_val (run_ops ops s) = watchdog_val s + int (count_list ops Watchdog_op) \<and>
   watchdog_val s \<le> watchdog_val (run_ops ops s)"
  by (simp add: watchdog_inc body_main_watchdog_val handle_client_watchdog_val
      run_ops_watchdog_val)

theorem heartbeat_counter_witness:
  "watchdog_val
     (run_ops [Watchdog_op, Sample_op 70, Client_op [''GET / HTTP/1.1'' @ crlf, crlf], Watchdog_op]
        init_pico) = 2 \<and>
   watchdog_val (duty_step Watchdog_op init_pico) = 1 \<and>
   watchdog_val (duty_step (Sample_op 85) init_pico) = 0"
  using heartbeat_counter[of init_pico 85 "[]"
      "[Watchdog_op, Sample_op 70, Client_op [''GET / HTTP/1.1'' @ crlf, crlf], Watchdog_op]"]
  by (simp add: init_pico_def)


end
